theory Spec2Isabelle
  imports Complex_Main "HOL-Library.Word"
begin

section \<open>The decision endpoint (/api/decide)\<close>

text \<open>
  The numbers of a request are finite JavaScript numbers, modelled as reals: every test
  the endpoint makes on them is an order comparison of a field, or of a quotient of two
  fields, against a constant. The two fields the handler tests for \<open>undefined\<close> are
  optional in the model; the three risk hints are optional in the source.
\<close>

datatype risk = low | medium | high

datatype RISK = LOW | MEDIUM | HIGH

datatype margin = safe | acceptable | thin

record DecideRequest =
  spreadPercent :: "real option"
  netProfitUsd :: "real option"
  gasCostUsd :: real
  slippageUsd :: real
  feesUsd :: real
  slippageRisk :: "RISK option"
  mevRisk :: "RISK option"
  timingRisk :: "RISK option"
  tradeSizeUsd :: real
  liquidityUsd :: real

fun toLowerCase :: "RISK \<Rightarrow> risk" where
  "toLowerCase LOW = low"
| "toLowerCase MEDIUM = medium"
| "toLowerCase HIGH = high"

text \<open>
  Values decoded from the advisory model's answer. A decoded answer is a JSON object,
  kept as an association list from property names to values.
\<close>

datatype json = JNull | JBool bool | JNum real | JStr string
  | JArr "json list" | JObj "(string \<times> json) list"

record riskAnalysis =
  gasRisk :: risk
  slippageRiskA :: risk
  mevRiskA :: risk
  profitMargin :: margin

text \<open>
  The inner \<open>decision\<close> object of a response. The fields \<open>decision\<close> and
  \<open>reason\<close> hold whatever value the handler put there (a string on every path but
  the advisory one); \<open>confidence\<close> is a number, \<open>None\<close> standing for NaN.
\<close>

record Decision =
  decision :: json
  reason :: json
  confidence :: "real option"
  riskAnalysis :: riskAnalysis

record DecideResponse =
  success :: bool
  timestamp :: nat
  decisionBody :: Decision
  error :: "string option"
  status :: nat

text \<open>
  Everything the handler reads from outside the request: the clock, the environment
  variable, the outcome of the advisory call (\<open>None\<close> when \<open>generateContent\<close> or
  \<open>response.text()\<close> throws, which is how a client error or timeout reaches the handler,
  otherwise the answer text), and the JavaScript built-ins \<open>JSON.parse\<close> (\<open>None\<close>
  for a SyntaxError; the text handed to it starts with an opening brace, so a successful
  parse is an object), \<open>Number.prototype.toFixed\<close> and the number conversion of
  strings, arrays and objects (\<open>None\<close> for NaN).
\<close>

record runtime =
  now :: nat
  GEMINI_API_KEY :: "string option"
  generateContent :: "DecideRequest \<Rightarrow> risk \<Rightarrow> risk \<Rightarrow> risk \<Rightarrow> margin \<Rightarrow> string option"
  JSON_parse :: "string \<Rightarrow> (string \<times> json) list option"
  toFixed :: "real \<Rightarrow> nat \<Rightarrow> string"
  coerceNumber :: "json \<Rightarrow> real option"

subsection \<open>Helper functions\<close>

definition inferSlippageRisk :: "DecideRequest \<Rightarrow> risk" where
  "inferSlippageRisk data =
     (let slippagePercent =
            (case netProfitUsd data of
               Some np \<Rightarrow> if np > 0 then (slippageUsd data / np) * 100 else 100
             | None \<Rightarrow> 100)
      in if slippagePercent > 50 then high
         else if slippagePercent > 25 then medium
         else low)"

definition inferMEVRisk :: "DecideRequest \<Rightarrow> risk" where
  "inferMEVRisk data =
     (if slippageUsd data > 2 \<and> tradeSizeUsd data > 50 then high
      else if slippageUsd data > 1 then medium
      else low)"

definition inferTimingRisk :: "DecideRequest \<Rightarrow> risk" where
  "inferTimingRisk data =
     (let gasPercent =
            (case netProfitUsd data of
               Some np \<Rightarrow> if np > 0 then (gasCostUsd data / np) * 100 else 100
             | None \<Rightarrow> 100)
      in if gasPercent > 50 then high
         else if gasPercent > 30 then medium
         else low)"

text \<open>
  With \<open>netProfitUsd\<close> undefined the quotient is NaN in the source and both
  comparisons fail, which gives \<open>thin\<close>.
\<close>

definition calculateProfitMargin :: "DecideRequest \<Rightarrow> margin" where
  "calculateProfitMargin data =
     (case (if gasCostUsd data > 0
            then (case netProfitUsd data of Some np \<Rightarrow> Some (np / gasCostUsd data) | None \<Rightarrow> None)
            else Some 0) of
        None \<Rightarrow> thin
      | Some profitGasRatio \<Rightarrow>
          if profitGasRatio \<ge> 5 then safe
          else if profitGasRatio \<ge> 3 then acceptable
          else thin)"

definition respond :: "runtime \<Rightarrow> json \<Rightarrow> json \<Rightarrow> real option \<Rightarrow> riskAnalysis \<Rightarrow> DecideResponse" where
  "respond rt d r c ra =
     \<lparr>success = True, timestamp = now rt,
      decisionBody = \<lparr>decision = d, reason = r, confidence = c, riskAnalysis = ra\<rparr>,
      error = None, status = 200\<rparr>"

definition fallbackDecision ::
  "runtime \<Rightarrow> DecideRequest \<Rightarrow> risk \<Rightarrow> risk \<Rightarrow> risk \<Rightarrow> margin \<Rightarrow> DecideResponse" where
  "fallbackDecision rt data slippageRisk' mevRisk' timingRisk' profitMargin' =
     (let risks = [slippageRisk', mevRisk', timingRisk'];
          hasHighRisk = (high \<in> set risks);
          mediumRiskCount = length (filter (\<lambda>r. r = medium) risks);
          ra = \<lparr>gasRisk = timingRisk', slippageRiskA = slippageRisk',
                mevRiskA = mevRisk', profitMargin = profitMargin'\<rparr>
      in if hasHighRisk \<or> mediumRiskCount \<ge> 2 then
           respond rt (JStr ''SKIP'')
             (JStr ''Overall risk assessment is HIGH - execution unsafe'') (Some 0.85) ra
         else if profitMargin' = thin then
           respond rt (JStr ''SKIP'')
             (JStr ''Profit margin too thin relative to gas cost'') (Some 0.8) ra
         else
           (let allLowRisk = list_all (\<lambda>r. r = low) risks
            in case netProfitUsd data of
                 Some np \<Rightarrow>
                   if np \<ge> 5 \<and> allLowRisk \<and> profitMargin' = safe then
                     respond rt (JStr ''EXECUTE'')
                       (JStr (''Net profit $'' @ toFixed rt np 2 @ '' with low overall risk''))
                       (Some 0.75) ra
                   else
                     respond rt (JStr ''SKIP'')
                       (JStr ''Risk-reward ratio not favorable for execution'') (Some 0.7) ra
               | None \<Rightarrow>
                   respond rt (JStr ''SKIP'')
                     (JStr ''Risk-reward ratio not favorable for execution'') (Some 0.7) ra))"

subsection \<open>Decoding the advisory answer\<close>

text \<open>
  The match of the answer text against the pattern "an opening brace, any characters,
  a closing brace": the leftmost opening brace and, the star being greedy, everything up
  to the last closing brace after it; no match when there is no
  opening brace or no closing brace after the first one.
\<close>

definition jsonMatch :: "string \<Rightarrow> string option" where
  "jsonMatch response =
     (let fromOpen = dropWhile (\<lambda>c. c \<noteq> CHR ''{'') response;
          upToClose = rev (dropWhile (\<lambda>c. c \<noteq> CHR ''}'') (rev fromOpen))
      in if upToClose = [] then None else Some upToClose)"

text \<open>JavaScript truthiness of a decoded value, as the \<open>||\<close> defaults test it.\<close>

fun truthy :: "json \<Rightarrow> bool" where
  "truthy JNull = False"
| "truthy (JBool b) = b"
| "truthy (JNum r) = (r \<noteq> 0)"
| "truthy (JStr s) = (s \<noteq> [])"
| "truthy (JArr xs) = True"
| "truthy (JObj kvs) = True"

text \<open>\<open>parsed.field || dflt\<close>: an absent property reads as \<open>undefined\<close>, which is falsy.\<close>

definition orDefault :: "(string \<times> json) list \<Rightarrow> string \<Rightarrow> json \<Rightarrow> json" where
  "orDefault parsed field dflt =
     (case map_of parsed field of
        None \<Rightarrow> dflt
      | Some v \<Rightarrow> if truthy v then v else dflt)"

fun ToNumber :: "(json \<Rightarrow> real option) \<Rightarrow> json \<Rightarrow> real option" where
  "ToNumber coerce (JNum r) = Some r"
| "ToNumber coerce (JBool b) = Some (if b then 1 else 0)"
| "ToNumber coerce JNull = Some 0"
| "ToNumber coerce v = coerce v"

text \<open>\<open>Math.max\<close> and \<open>Math.min\<close> with a constant first argument; NaN propagates.\<close>

definition Math_max :: "real \<Rightarrow> real option \<Rightarrow> real option" where
  "Math_max a x = map_option (max a) x"

definition Math_min :: "real \<Rightarrow> real option \<Rightarrow> real option" where
  "Math_min a x = map_option (min a) x"

subsection \<open>The handler\<close>

definition errorRisk :: riskAnalysis where
  "errorRisk = \<lparr>gasRisk = high, slippageRiskA = high, mevRiskA = high, profitMargin = thin\<rparr>"

text \<open>
  The risk levels the handler works with: the request's hint in lower case when it is
  given, the inferred level otherwise; and the \<open>riskAnalysis\<close> object every response
  built from a request carries.
\<close>

definition slippageRiskOf :: "DecideRequest \<Rightarrow> risk" where
  "slippageRiskOf body =
     (case slippageRisk body of Some r \<Rightarrow> toLowerCase r | None \<Rightarrow> inferSlippageRisk body)"

definition mevRiskOf :: "DecideRequest \<Rightarrow> risk" where
  "mevRiskOf body =
     (case mevRisk body of Some r \<Rightarrow> toLowerCase r | None \<Rightarrow> inferMEVRisk body)"

definition timingRiskOf :: "DecideRequest \<Rightarrow> risk" where
  "timingRiskOf body =
     (case timingRisk body of Some r \<Rightarrow> toLowerCase r | None \<Rightarrow> inferTimingRisk body)"

definition riskAnalysisOf :: "DecideRequest \<Rightarrow> riskAnalysis" where
  "riskAnalysisOf body =
     \<lparr>gasRisk = timingRiskOf body, slippageRiskA = slippageRiskOf body,
      mevRiskA = mevRiskOf body, profitMargin = calculateProfitMargin body\<rparr>"

text \<open>The call of the rule-based fallback as the handler makes it, in all three places.\<close>

definition fallbackOf :: "runtime \<Rightarrow> DecideRequest \<Rightarrow> DecideResponse" where
  "fallbackOf rt body =
     fallbackDecision rt body (slippageRiskOf body) (mevRiskOf body) (timingRiskOf body)
       (calculateProfitMargin body)"

text \<open>
  The advisory call as the handler makes it: the prompt is built from the request and the
  four classifications, and the answer is \<open>None\<close> when the call throws.
\<close>

definition advisoryAnswer :: "runtime \<Rightarrow> DecideRequest \<Rightarrow> string option" where
  "advisoryAnswer rt body =
     generateContent rt body (timingRiskOf body) (slippageRiskOf body) (mevRiskOf body)
       (calculateProfitMargin body)"

text \<open>
  The request body is \<open>Inl msg\<close> when \<open>request.json()\<close> throws with message
  \<open>msg\<close> (the outer \<open>catch\<close>), \<open>Inr body\<close> otherwise. Inside the inner
  \<open>try\<close>, a throwing advisory call and a throwing \<open>JSON.parse\<close> both land in the
  inner \<open>catch\<close>, which answers with the fallback.
\<close>

definition POST :: "runtime \<Rightarrow> string + DecideRequest \<Rightarrow> DecideResponse" where
  "POST rt request =
     (case request of
        Inl msg \<Rightarrow>
          \<lparr>success = False, timestamp = now rt,
           decisionBody = \<lparr>decision = JStr ''SKIP'',
             reason = JStr ''Error processing decision request'',
             confidence = Some 0, riskAnalysis = errorRisk\<rparr>,
           error = Some msg, status = 500\<rparr>
      | Inr body \<Rightarrow>
         (case (netProfitUsd body, spreadPercent body) of
            (Some np, Some sp) \<Rightarrow>
              (let ra = riskAnalysisOf body
               in if np \<le> 0 then
                    respond rt (JStr ''SKIP'') (JStr ''Net profit is negative or zero'') (Some 1.0) ra
                  else if np < 2 then
                    respond rt (JStr ''SKIP'') (JStr ''Net profit below $2 minimum threshold'')
                      (Some 0.95) ra
                  else if sp > 5 then
                    respond rt (JStr ''SKIP'')
                      (JStr ''Spread >5% appears anomalous - possible bad data'') (Some 0.9) ra
                  else
                    (case GEMINI_API_KEY rt of
                       None \<Rightarrow> fallbackOf rt body
                     | Some aiKey \<Rightarrow>
                         if aiKey = [] then fallbackOf rt body
                         else
                           (case advisoryAnswer rt body of
                              None \<Rightarrow> fallbackOf rt body
                            | Some response \<Rightarrow>
                                (case jsonMatch response of
                                   None \<Rightarrow> fallbackOf rt body
                                 | Some m \<Rightarrow>
                                     (case JSON_parse rt m of
                                        None \<Rightarrow> fallbackOf rt body
                                      | Some parsed \<Rightarrow>
                                          respond rt
                                            (orDefault parsed ''decision'' (JStr ''SKIP''))
                                            (orDefault parsed ''reason'' (JStr ''AI decision completed''))
                                            (Math_min 1 (Math_max 0
                                               (ToNumber (coerceNumber rt)
                                                  (orDefault parsed ''confidence'' (JNum 0.5)))))
                                            ra)))))
          | _ \<Rightarrow>
              \<lparr>success = False, timestamp = now rt,
               decisionBody = \<lparr>decision = JStr ''SKIP'',
                 reason = JStr ''Missing required simulation data'',
                 confidence = Some 0, riskAnalysis = errorRisk\<rparr>,
               error = Some ''Missing required fields'', status = 400\<rparr>))"

section \<open>The settlement contract (Arbfarm)\<close>

type_synonym uint256 = "256 word"
type_synonym address = "160 word"

record Transaction =
  txTimestamp :: uint256
  amountIn :: uint256
  profit :: uint256
  isExecuteArb :: bool

datatype event =
    Deposited address uint256
  | Withdrawn address uint256
  | ArbitrageExecuted address uint256 uint256 uint256

text \<open>
  The contract's storage, its ether balance (\<open>address(this).balance\<close>) and the log of
  the events it has emitted.
\<close>

record Arbfarm =
  userBalances :: "address \<Rightarrow> uint256"
  userTransactions :: "address \<Rightarrow> Transaction list"
  balance :: uint256
  events :: "event list"

text \<open>
  A call reverts with the message of a failed \<open>require\<close>, with the arithmetic panic
  of Solidity 0.8 (checked \<open>+\<close> and \<open>-\<close>), or because an external call or an
  ether transfer failed.
\<close>

datatype revert = Require string | Panic | ExternalCallFailed

definition checked_add :: "uint256 \<Rightarrow> uint256 \<Rightarrow> revert + uint256" where
  "checked_add a b = (if unat a + unat b < 2 ^ 256 then Inr (a + b) else Inl Panic)"

definition checked_sub :: "uint256 \<Rightarrow> uint256 \<Rightarrow> revert + uint256" where
  "checked_sub a b = (if b \<le> a then Inr (a - b) else Inl Panic)"

record ExactInputSingleParams =
  tokenIn :: address
  tokenOut :: address
  fee :: "24 word"
  recipient :: address
  deadline :: uint256
  paramAmountIn :: uint256
  amountOutMinimum :: uint256
  sqrtPriceLimitX96 :: "160 word"

text \<open>
  What the contract is deployed with and what surrounds a call: its own address, the
  three immutable addresses, the block timestamp, and the behaviour of the external
  contracts. Each external call either reverts (\<open>False\<close>, \<open>None\<close>) or returns; the
  router's answer may differ between the first and the second swap of a call (index 0 and
  1). The wrapped-ether token takes the ether sent with \<open>deposit\<close> and pays
  \<open>withdraw\<close> back as a plain ether transfer, which runs the contract's own
  \<open>receive\<close> with the token as sender; the external contracts make no other call back
  into the contract. \<open>acceptsEther\<close> says whether a plain transfer of an amount to an
  address succeeds.
\<close>

record chain =
  this :: address
  swapRouter :: address
  WETH :: address
  USDC :: address
  blockTimestamp :: uint256
  wethDeposit :: "uint256 \<Rightarrow> bool"
  wethApprove :: "address \<Rightarrow> uint256 \<Rightarrow> bool"
  usdcApprove :: "address \<Rightarrow> uint256 \<Rightarrow> bool"
  exactInputSingle :: "nat \<Rightarrow> ExactInputSingleParams \<Rightarrow> uint256 option"
  wethWithdraw :: "uint256 \<Rightarrow> bool"
  acceptsEther :: "address \<Rightarrow> uint256 \<Rightarrow> bool"

definition POOL_FEE :: "24 word" where
  "POOL_FEE = 3000"

text \<open>The ether sent with a payable call is in the balance before the body runs.\<close>

definition receive :: "Arbfarm \<Rightarrow> address \<Rightarrow> uint256 \<Rightarrow> revert + Arbfarm" where
  "receive s msgSender msgValue =
     (let s1 = s\<lparr>balance := balance s + msgValue\<rparr>
      in case checked_add (userBalances s1 msgSender) msgValue of
           Inl e \<Rightarrow> Inl e
         | Inr b \<Rightarrow>
             Inr (s1\<lparr>userBalances := (userBalances s1)(msgSender := b),
                     events := events s1 @ [Deposited msgSender msgValue]\<rparr>))"

definition deposit :: "Arbfarm \<Rightarrow> address \<Rightarrow> uint256 \<Rightarrow> revert + Arbfarm" where
  "deposit s msgSender msgValue =
     (let s1 = s\<lparr>balance := balance s + msgValue\<rparr>
      in if \<not> msgValue > 0 then Inl (Require ''Zero deposit'')
         else case checked_add (userBalances s1 msgSender) msgValue of
                Inl e \<Rightarrow> Inl e
              | Inr b \<Rightarrow>
                  Inr (s1\<lparr>userBalances := (userBalances s1)(msgSender := b),
                          events := events s1 @ [Deposited msgSender msgValue]\<rparr>))"

definition withdraw :: "chain \<Rightarrow> Arbfarm \<Rightarrow> address \<Rightarrow> uint256 \<Rightarrow> revert + Arbfarm" where
  "withdraw c s msgSender amount =
     (if \<not> amount > 0 then Inl (Require ''Zero withdraw'')
      else if \<not> userBalances s msgSender \<ge> amount then Inl (Require ''Insufficient balance'')
      else
        (let s1 = s\<lparr>userBalances := (userBalances s)(msgSender := userBalances s msgSender - amount)\<rparr>
         in if balance s1 < amount \<or> \<not> acceptsEther c msgSender amount then Inl ExternalCallFailed
            else Inr (s1\<lparr>balance := balance s1 - amount,
                         events := events s1 @ [Withdrawn msgSender amount]\<rparr>)))"

definition executeArb ::
  "chain \<Rightarrow> Arbfarm \<Rightarrow> address \<Rightarrow> uint256 \<Rightarrow> uint256 \<Rightarrow> revert + Arbfarm" where
  "executeArb c s msgSender amountIn' minProfit =
     (if \<not> amountIn' > 0 then Inl (Require ''Zero amount'')
      else if \<not> userBalances s msgSender \<ge> amountIn' then Inl (Require ''Insufficient balance'')
      else
        (let ethBefore = balance s;
             s1 = s\<lparr>userBalances :=
                       (userBalances s)(msgSender := userBalances s msgSender - amountIn')\<rparr>
         in if balance s1 < amountIn' \<or> \<not> wethDeposit c amountIn' then Inl ExternalCallFailed
            else
              (let s2 = s1\<lparr>balance := balance s1 - amountIn'\<rparr>
               in if \<not> wethApprove c (swapRouter c) amountIn' then Inl ExternalCallFailed
                  else
                    (case checked_add (blockTimestamp c) 60 of
                       Inl e \<Rightarrow> Inl e
                     | Inr deadline' \<Rightarrow>
                    (case exactInputSingle c 0
                            \<lparr>tokenIn = WETH c, tokenOut = USDC c, fee = POOL_FEE,
                             recipient = this c, deadline = deadline',
                             paramAmountIn = amountIn', amountOutMinimum = 0,
                             sqrtPriceLimitX96 = 0\<rparr> of
                       None \<Rightarrow> Inl ExternalCallFailed
                     | Some usdcReceived \<Rightarrow>
                    if \<not> usdcReceived > 0 then Inl (Require ''WETH->USDC swap failed'')
                    else if \<not> usdcApprove c (swapRouter c) usdcReceived then Inl ExternalCallFailed
                    else
                    (case exactInputSingle c 1
                            \<lparr>tokenIn = USDC c, tokenOut = WETH c, fee = POOL_FEE,
                             recipient = this c, deadline = deadline',
                             paramAmountIn = usdcReceived, amountOutMinimum = 0,
                             sqrtPriceLimitX96 = 0\<rparr> of
                       None \<Rightarrow> Inl ExternalCallFailed
                     | Some wethReceived \<Rightarrow>
                    if \<not> wethReceived > 0 then Inl (Require ''USDC->WETH swap failed'')
                    else if \<not> wethWithdraw c wethReceived then Inl ExternalCallFailed
                    else
                    (case receive s2 (WETH c) wethReceived of
                       Inl e \<Rightarrow> Inl e
                     | Inr s3 \<Rightarrow>
                    (let ethAfter = balance s3
                     in case checked_sub ethAfter ethBefore of
                          Inl e \<Rightarrow> Inl e
                        | Inr profit' \<Rightarrow>
                    if \<not> profit' \<ge> minProfit
                    then Inl (Require ''Unprofitable: profit below minimum'')
                    else
                    (case checked_add amountIn' profit' of
                       Inl e \<Rightarrow> Inl e
                     | Inr credit \<Rightarrow>
                    (case checked_add (userBalances s3 msgSender) credit of
                       Inl e \<Rightarrow> Inl e
                     | Inr b \<Rightarrow>
                         Inr (s3\<lparr>userBalances := (userBalances s3)(msgSender := b),
                                 userTransactions := (userTransactions s3)
                                   (msgSender := userTransactions s3 msgSender @
                                      [\<lparr>txTimestamp = blockTimestamp c, amountIn = amountIn',
                                        profit = profit', isExecuteArb = True\<rparr>]),
                                 events := events s3 @
                                   [ArbitrageExecuted msgSender ethBefore ethAfter profit']\<rparr>)))))))))))"

text \<open>
  A transaction on the host ledger: when the called function reverts, every state change
  it made is discarded and the state is the one before the call.
\<close>

definition transact :: "(Arbfarm \<Rightarrow> revert + Arbfarm) \<Rightarrow> Arbfarm \<Rightarrow> Arbfarm \<times> revert option" where
  "transact f s = (case f s of Inl e \<Rightarrow> (s, Some e) | Inr s' \<Rightarrow> (s', None))"

section \<open>The cost estimators and their ETH/USD reference\<close>

text \<open>
  Every estimator reads the network itself. A read is a parameter of the model: the gas
  estimate and gas price in wei (\<open>None\<close> when the provider throws, which fails the
  estimator), and the \<open>sqrtPriceX96\<close> of the price pool's \<open>slot0\<close> (\<open>None\<close> when
  that read throws, which \<open>getEthPriceUsd\<close> catches). Amounts are exact reals;
  \<open>toFixedValue d x\<close> is the number that \<open>x.toFixed(d)\<close> reads back as.
\<close>

definition getEthPriceUsd :: "nat option \<Rightarrow> real" where
  "getEthPriceUsd slot0 =
     (case slot0 of
        Some sqrtPriceX96 \<Rightarrow>
          (let sqrtPrice = real sqrtPriceX96 / (2 ^ 96);
               price = sqrtPrice ^ 2;
               ethPrice = price * (10 ^ 12)
           in ethPrice)
      | None \<Rightarrow> 3500)"

definition toFixedValue :: "nat \<Rightarrow> real \<Rightarrow> real" where
  "toFixedValue d x =
     (if x < 0 then - (of_int \<lfloor>(- x) * 10 ^ d + 1 / 2\<rfloor> / 10 ^ d)
      else of_int \<lfloor>x * 10 ^ d + 1 / 2\<rfloor> / 10 ^ d)"

definition formatEther :: "nat \<Rightarrow> real" where
  "formatEther wei = real wei / 10 ^ 18"

record feeData =
  gasEstimate :: nat
  gasPrice :: nat

record gasFees =
  gasCostWei :: nat
  gasCostEth :: real
  legGasCostUsd :: real

definition calculateBaseDepositGasFees :: "feeData option \<Rightarrow> nat option \<Rightarrow> string + gasFees" where
  "calculateBaseDepositGasFees net slot0 =
     (case net of
        None \<Rightarrow> Inl ''Failed to calculate Base deposit gas fees''
      | Some fd \<Rightarrow>
          (let gasCostInWei = gasEstimate fd * gasPrice fd;
               gasCostInEth = formatEther gasCostInWei;
               ethPriceUsd = getEthPriceUsd slot0
           in Inr \<lparr>gasCostWei = gasCostInWei, gasCostEth = gasCostInEth,
                    legGasCostUsd = toFixedValue 2 (gasCostInEth * ethPriceUsd)\<rparr>))"

definition calculateArbitrumSwapGasFees :: "feeData option \<Rightarrow> nat option \<Rightarrow> string + gasFees" where
  "calculateArbitrumSwapGasFees net slot0 =
     (case net of
        None \<Rightarrow> Inl ''Failed to calculate Arbitrum swap gas fees''
      | Some fd \<Rightarrow>
          (let gasCostInWei = gasEstimate fd * gasPrice fd;
               gasCostInEth = formatEther gasCostInWei;
               ethPriceUsd = getEthPriceUsd slot0
           in Inr \<lparr>gasCostWei = gasCostInWei, gasCostEth = gasCostInEth,
                    legGasCostUsd = toFixedValue 2 (gasCostInEth * ethPriceUsd)\<rparr>))"

record flowGasFees =
  step1_deposit :: gasFees
  step2_swap :: gasFees
  totalGasCostEth :: real
  totalGasCostUsd :: real

text \<open>
  The two legs are awaited together; each performs its own reads, so the flow takes the
  reads of the deposit leg and those of the swap leg.
\<close>

definition calculateCompleteFlowGasFees ::
  "feeData option \<Rightarrow> nat option \<Rightarrow> feeData option \<Rightarrow> nat option \<Rightarrow> string + flowGasFees" where
  "calculateCompleteFlowGasFees depositNet depositSlot0 swapNet swapSlot0 =
     (case calculateBaseDepositGasFees depositNet depositSlot0 of
        Inl e \<Rightarrow> Inl ''Failed to calculate complete flow gas fees''
      | Inr depositFees \<Rightarrow>
          (case calculateArbitrumSwapGasFees swapNet swapSlot0 of
             Inl e \<Rightarrow> Inl ''Failed to calculate complete flow gas fees''
           | Inr swapFees \<Rightarrow>
               Inr \<lparr>step1_deposit = depositFees, step2_swap = swapFees,
                    totalGasCostEth = toFixedValue 6 (gasCostEth depositFees + gasCostEth swapFees),
                    totalGasCostUsd =
                      toFixedValue 2 (legGasCostUsd depositFees + legGasCostUsd swapFees)\<rparr>))"

record bridgeFees =
  relayerFeeEth :: real
  relayerFeeUsd :: real
  bridgeGasCostEth :: real
  bridgeGasCostUsd :: real
  totalFeesEth :: real
  totalFeesUsd :: real

text \<open>
  The bridge estimator: \<open>quote\<close> is the relayer fee in wei the quoting service answered
  (\<open>None\<close> when it is unreachable or answers without one, which leaves the 10 basis
  point default), \<open>baseGasPrice\<close> the gas price read on the source chain.
\<close>

definition calculateAcrossBridgeFees ::
  "nat \<Rightarrow> nat option \<Rightarrow> nat option \<Rightarrow> nat option \<Rightarrow> string + bridgeFees" where
  "calculateAcrossBridgeFees amountInWei quote baseGasPrice slot0 =
     (let relayerFeeBps = (10::nat);
          totalRelayerFeeWei =
            (case quote of None \<Rightarrow> (amountInWei * relayerFeeBps) div 10000 | Some quoted \<Rightarrow> quoted);
          typicalGasUsage = (250000::nat)
      in case baseGasPrice of
           None \<Rightarrow> Inl ''Failed to calculate Across bridge fees''
         | Some gasPrice' \<Rightarrow>
             (let gasCostInWei = typicalGasUsage * gasPrice';
                  gasCostInEth = formatEther gasCostInWei;
                  ethPriceUsd = getEthPriceUsd slot0;
                  relayerFeeEth' = formatEther totalRelayerFeeWei;
                  relayerFeeUsd' = toFixedValue 2 (relayerFeeEth' * ethPriceUsd);
                  totalFeesEth' = toFixedValue 6 (gasCostInEth + relayerFeeEth');
                  totalFeesUsd' = toFixedValue 2 (totalFeesEth' * ethPriceUsd);
                  gasCostUsd' = toFixedValue 2 (gasCostInEth * ethPriceUsd)
              in Inr \<lparr>relayerFeeEth = relayerFeeEth', relayerFeeUsd = relayerFeeUsd',
                       bridgeGasCostEth = gasCostInEth, bridgeGasCostUsd = gasCostUsd',
                       totalFeesEth = totalFeesEth', totalFeesUsd = totalFeesUsd'\<rparr>))"

section \<open>Sample inputs\<close>

text \<open>
  A request that passes the gate with every inferred risk low and a safe margin, and four
  runtimes: no advisory key; an advisory call that throws; an advisory that answers with
  an object holding only a decision; and one that answers with the empty object. The only
  number these samples ever format is 6 with two decimals, so \<open>toFixed\<close> is the
  constant 6.00 in them.
\<close>

definition sampleRequest :: DecideRequest where
  "sampleRequest =
     \<lparr>spreadPercent = Some 1, netProfitUsd = Some 6, gasCostUsd = 1, slippageUsd = 0,
      feesUsd = 0, slippageRisk = None, mevRisk = None, timingRisk = None,
      tradeSizeUsd = 100, liquidityUsd = 1000000\<rparr>"

definition noAdvisory :: runtime where
  "noAdvisory =
     \<lparr>now = 0, GEMINI_API_KEY = None, generateContent = (\<lambda>_ _ _ _ _. None),
      JSON_parse = (\<lambda>_. None), toFixed = (\<lambda>_ _. ''6.00''), coerceNumber = (\<lambda>_. None)\<rparr>"

definition partialAnswer :: string where
  \<open>partialAnswer = ''{"decision":"EXECUTE"}''\<close>

definition partialAdvisory :: runtime where
  "partialAdvisory =
     \<lparr>now = 0, GEMINI_API_KEY = Some ''key'',
      generateContent = (\<lambda>_ _ _ _ _. Some partialAnswer),
      JSON_parse = (\<lambda>t. if t = partialAnswer then Some [(''decision'', JStr ''EXECUTE'')] else None),
      toFixed = (\<lambda>_ _. ''6.00''), coerceNumber = (\<lambda>_. None)\<rparr>"

definition emptyAdvisory :: runtime where
  "emptyAdvisory =
     \<lparr>now = 0, GEMINI_API_KEY = Some ''key'',
      generateContent = (\<lambda>_ _ _ _ _. Some ''{}''),
      JSON_parse = (\<lambda>t. if t = ''{}'' then Some [] else None),
      toFixed = (\<lambda>_ _. ''6.00''), coerceNumber = (\<lambda>_. None)\<rparr>"

definition failingAdvisory :: runtime where
  "failingAdvisory =
     \<lparr>now = 0, GEMINI_API_KEY = Some ''key'',
      generateContent = (\<lambda>_ _ _ _ _. None),
      JSON_parse = (\<lambda>_. None),
      toFixed = (\<lambda>_ _. ''6.00''), coerceNumber = (\<lambda>_. None)\<rparr>"

text \<open>
  A ledger on which account 1 has deposited 5 wei, a chain on which every external call
  succeeds and the two swaps return 15000 and 7, and the network reads of a gas leg
  (100000 gas at 10 gwei).
\<close>

definition fundedLedger :: Arbfarm where
  "fundedLedger =
     \<lparr>userBalances = (\<lambda>_. 0)(1 := 5), userTransactions = (\<lambda>_. []), balance = 5,
      events = [Deposited 1 5]\<rparr>"

definition sampleChain :: chain where
  "sampleChain =
     \<lparr>this = 100, swapRouter = 101, WETH = 102, USDC = 103, blockTimestamp = 1700000000,
      wethDeposit = (\<lambda>_. True), wethApprove = (\<lambda>_ _. True), usdcApprove = (\<lambda>_ _. True),
      exactInputSingle = (\<lambda>i p. if i = 0 then Some 15000 else Some 7),
      wethWithdraw = (\<lambda>_. True), acceptsEther = (\<lambda>_ _. True)\<rparr>"

definition sampleFeeData :: feeData where
  "sampleFeeData = \<lparr>gasEstimate = 100000, gasPrice = 10000000000\<rparr>"

section \<open>Properties of the decision endpoint\<close>

lemmas risk_defs = slippageRiskOf_def mevRiskOf_def timingRiskOf_def riskAnalysisOf_def
  inferSlippageRisk_def inferMEVRisk_def inferTimingRisk_def calculateProfitMargin_def

lemma POST_valid:
  assumes "netProfitUsd body = Some np" and "spreadPercent body = Some sp"
  shows "POST rt (Inr body) =
     (if np \<le> 0 then
        respond rt (JStr ''SKIP'') (JStr ''Net profit is negative or zero'') (Some 1) (riskAnalysisOf body)
      else if np < 2 then
        respond rt (JStr ''SKIP'') (JStr ''Net profit below $2 minimum threshold'')
          (Some 0.95) (riskAnalysisOf body)
      else if sp > 5 then
        respond rt (JStr ''SKIP'')
          (JStr ''Spread >5% appears anomalous - possible bad data'') (Some 0.9) (riskAnalysisOf body)
      else
        (case GEMINI_API_KEY rt of
           None \<Rightarrow> fallbackOf rt body
         | Some aiKey \<Rightarrow>
             if aiKey = [] then fallbackOf rt body
             else
               (case advisoryAnswer rt body of
                  None \<Rightarrow> fallbackOf rt body
                | Some response \<Rightarrow>
                    (case jsonMatch response of
                       None \<Rightarrow> fallbackOf rt body
                     | Some m \<Rightarrow>
                         (case JSON_parse rt m of
                            None \<Rightarrow> fallbackOf rt body
                          | Some parsed \<Rightarrow>
                              respond rt
                                (orDefault parsed ''decision'' (JStr ''SKIP''))
                                (orDefault parsed ''reason'' (JStr ''AI decision completed''))
                                (Math_min 1 (Math_max 0
                                   (ToNumber (coerceNumber rt)
                                      (orDefault parsed ''confidence'' (JNum 0.5)))))
                                (riskAnalysisOf body))))))"
  using assms by (simp add: POST_def Let_def)

lemma fallbackDecision_verdict:
  "decision (decisionBody (fallbackDecision rt data sr mr tr pm)) =
     (if (\<exists>np. netProfitUsd data = Some np \<and> 5 \<le> np) \<and> sr = low \<and> mr = low \<and> tr = low \<and> pm = safe
      then JStr ''EXECUTE'' else JStr ''SKIP'')"
  by (cases sr; cases mr; cases tr; cases pm; cases "netProfitUsd data")
     (simp_all add: fallbackDecision_def respond_def)

lemma orDefault_truthy: "truthy d \<Longrightarrow> truthy (orDefault parsed field d)"
  by (simp add: orDefault_def split: option.splits)

lemma clamp_range: "Math_min 1 (Math_max 0 x) = Some c \<Longrightarrow> 0 \<le> c \<and> c \<le> 1"
  by (cases x) (auto simp add: Math_min_def Math_max_def)

lemma fallbackDecision_reason:
  "\<exists>r. reason (decisionBody (fallbackDecision rt data sr mr tr pm)) = JStr r \<and> r \<noteq> []"
  by (simp add: fallbackDecision_def respond_def Let_def split: option.splits)

lemma fallbackDecision_success:
  "success (fallbackDecision rt data sr mr tr pm) \<and> status (fallbackDecision rt data sr mr tr pm) = 200
   \<and> error (fallbackDecision rt data sr mr tr pm) = None"
  by (simp add: fallbackDecision_def respond_def Let_def split: option.splits)

text \<open>
  C2. For a request that carries both required fields, the gate tests, in this order, net
  profit at most 0 (SKIP, "Net profit is negative or zero", confidence 1.0), net profit
  below 2 (SKIP, "Net profit below $2 minimum threshold"), and spread above 5 (SKIP,
  "Spread >5% appears anomalous - possible bad data"). The first test that matches fixes
  the whole response, whatever the later tests would say, and the response is the same
  under every runtime with the same clock: neither the advisory answer nor the fallback
  takes part in it.
\<close>

theorem gate_first_match_wins:
  assumes "netProfitUsd body = Some np" and "spreadPercent body = Some sp"
  shows "(np \<le> 0 \<longrightarrow>
            POST rt (Inr body) =
              respond rt (JStr ''SKIP'') (JStr ''Net profit is negative or zero'') (Some 1)
                (riskAnalysisOf body)
            \<and> decision (decisionBody (POST rt (Inr body))) = JStr ''SKIP''
            \<and> confidence (decisionBody (POST rt (Inr body))) = Some 1)
       \<and> (0 < np \<and> np < 2 \<longrightarrow>
            POST rt (Inr body) =
              respond rt (JStr ''SKIP'') (JStr ''Net profit below $2 minimum threshold'')
                (Some 0.95) (riskAnalysisOf body))
       \<and> (2 \<le> np \<and> 5 < sp \<longrightarrow>
            POST rt (Inr body) =
              respond rt (JStr ''SKIP'') (JStr ''Spread >5% appears anomalous - possible bad data'')
                (Some 0.9) (riskAnalysisOf body))
       \<and> (np < 2 \<or> 5 < sp \<longrightarrow>
            (\<forall>rt'. now rt' = now rt \<longrightarrow> POST rt' (Inr body) = POST rt (Inr body)))"
  using assms by (auto simp add: POST_valid respond_def)

theorem gate_first_match_wins_witness:
  "netProfitUsd (sampleRequest\<lparr>netProfitUsd := Some (-1), spreadPercent := Some 7\<rparr>) = Some (-1)
   \<and> spreadPercent (sampleRequest\<lparr>netProfitUsd := Some (-1), spreadPercent := Some 7\<rparr>) = Some 7
   \<and> now partialAdvisory = now noAdvisory
   \<and> reason (decisionBody (POST noAdvisory
         (Inr (sampleRequest\<lparr>netProfitUsd := Some (-1), spreadPercent := Some 7\<rparr>))))
        = JStr ''Net profit is negative or zero''
   \<and> confidence (decisionBody (POST noAdvisory
         (Inr (sampleRequest\<lparr>netProfitUsd := Some (-1), spreadPercent := Some 7\<rparr>)))) = Some 1
   \<and> POST partialAdvisory (Inr (sampleRequest\<lparr>netProfitUsd := Some (-1), spreadPercent := Some 7\<rparr>)) =
     POST noAdvisory (Inr (sampleRequest\<lparr>netProfitUsd := Some (-1), spreadPercent := Some 7\<rparr>))"
proof -
  let ?b = "sampleRequest\<lparr>netProfitUsd := Some (-1), spreadPercent := Some 7\<rparr>"
  have np: "netProfitUsd ?b = Some (-1)" and sp: "spreadPercent ?b = Some 7"
    by (simp_all add: sampleRequest_def)
  have clock: "now partialAdvisory = now noAdvisory"
    by (simp add: partialAdvisory_def noAdvisory_def)
  have neg: "(-1::real) \<le> 0" and below: "(-1::real) < 2"
    by simp_all
  from gate_first_match_wins [OF np sp, of noAdvisory] neg below
  have first: "POST noAdvisory (Inr ?b) =
      respond noAdvisory (JStr ''SKIP'') (JStr ''Net profit is negative or zero'') (Some 1)
        (riskAnalysisOf ?b)"
    and conf: "confidence (decisionBody (POST noAdvisory (Inr ?b))) = Some 1"
    and same: "\<forall>rt'. now rt' = now noAdvisory \<longrightarrow> POST rt' (Inr ?b) = POST noAdvisory (Inr ?b)"
    by blast+
  from first have why: "reason (decisionBody (POST noAdvisory (Inr ?b)))
      = JStr ''Net profit is negative or zero''"
    by (simp add: respond_def)
  from same clock have "POST partialAdvisory (Inr ?b) = POST noAdvisory (Inr ?b)"
    by blast
  with np sp clock why conf show ?thesis
    by blast
qed

text \<open>
  C3. The rule-based fallback answers SKIP when any of the three risks is high or at least
  two are medium, SKIP when the margin is thin, EXECUTE exactly when net profit is at
  least 5, all three risks are low and the margin is safe, and SKIP in every other case.
  With net profit 6, all risks low and a safe margin it answers EXECUTE with confidence
  0.75.
\<close>

theorem fallbackDecision_rule:
  "((sr = high \<or> mr = high \<or> tr = high
       \<or> (sr = medium \<and> mr = medium) \<or> (sr = medium \<and> tr = medium) \<or> (mr = medium \<and> tr = medium))
      \<longrightarrow> decision (decisionBody (fallbackDecision rt data sr mr tr pm)) = JStr ''SKIP'')
   \<and> (pm = thin \<longrightarrow> decision (decisionBody (fallbackDecision rt data sr mr tr pm)) = JStr ''SKIP'')
   \<and> (decision (decisionBody (fallbackDecision rt data sr mr tr pm)) = JStr ''EXECUTE''
        \<longleftrightarrow> (\<exists>np. netProfitUsd data = Some np \<and> 5 \<le> np) \<and> sr = low \<and> mr = low \<and> tr = low \<and> pm = safe)
   \<and> (decision (decisionBody (fallbackDecision rt data sr mr tr pm)) \<noteq> JStr ''EXECUTE''
        \<longrightarrow> decision (decisionBody (fallbackDecision rt data sr mr tr pm)) = JStr ''SKIP'')
   \<and> (netProfitUsd data = Some 6 \<and> sr = low \<and> mr = low \<and> tr = low \<and> pm = safe
        \<longrightarrow> decision (decisionBody (fallbackDecision rt data sr mr tr pm)) = JStr ''EXECUTE''
          \<and> confidence (decisionBody (fallbackDecision rt data sr mr tr pm)) = Some 0.75)"
proof -
  have conf: "netProfitUsd data = Some 6 \<Longrightarrow>
      confidence (decisionBody (fallbackDecision rt data low low low safe)) = Some 0.75"
    by (simp add: fallbackDecision_def respond_def)
  show ?thesis
    unfolding fallbackDecision_verdict using conf by auto
qed

theorem fallbackDecision_rule_witness:
  "netProfitUsd sampleRequest = Some 6
   \<and> fallbackOf noAdvisory sampleRequest = fallbackDecision noAdvisory sampleRequest low low low safe
   \<and> decision (decisionBody (fallbackDecision noAdvisory sampleRequest low low low safe)) = JStr ''EXECUTE''
   \<and> confidence (decisionBody (fallbackDecision noAdvisory sampleRequest low low low safe)) = Some 0.75
   \<and> decision (decisionBody (fallbackDecision noAdvisory sampleRequest low medium low safe)) = JStr ''SKIP''"
  using fallbackDecision_rule [where sr = low and mr = low and tr = low and pm = safe
      and rt = noAdvisory and data = sampleRequest]
    fallbackDecision_rule [where sr = low and mr = medium and tr = low and pm = safe
      and rt = noAdvisory and data = sampleRequest]
  by (simp add: sampleRequest_def fallbackOf_def risk_defs)

text \<open>
  C9. With a gas cost of zero or less the profit-gas ratio is taken as 0, the margin is
  thin, and the fallback answers SKIP whatever the net profit and the risk levels are.
\<close>

theorem zero_gas_cost_never_executed:
  assumes "gasCostUsd data \<le> 0"
  shows "calculateProfitMargin data = thin
    \<and> decision (decisionBody (fallbackOf rt data)) = JStr ''SKIP''
    \<and> decision (decisionBody (fallbackDecision rt data sr mr tr (calculateProfitMargin data))) = JStr ''SKIP''"
proof -
  have thin: "calculateProfitMargin data = thin"
    using assms by (simp add: calculateProfitMargin_def)
  then show ?thesis
    by (simp add: fallbackOf_def fallbackDecision_verdict)
qed

theorem zero_gas_cost_never_executed_witness:
  "gasCostUsd (sampleRequest\<lparr>gasCostUsd := 0, netProfitUsd := Some 1000000\<rparr>) \<le> 0
   \<and> calculateProfitMargin (sampleRequest\<lparr>gasCostUsd := 0, netProfitUsd := Some 1000000\<rparr>) = thin
   \<and> decision (decisionBody (POST noAdvisory (Inr (sampleRequest\<lparr>gasCostUsd := 0, netProfitUsd := Some 1000000\<rparr>))))
       = JStr ''SKIP''"
  using zero_gas_cost_never_executed [where data = "sampleRequest\<lparr>gasCostUsd := 0, netProfitUsd := Some 1000000\<rparr>"
      and rt = noAdvisory and sr = low and mr = low and tr = low]
  by (simp add: sampleRequest_def noAdvisory_def POST_def)

text \<open>
  With a spread of 7 and a net profit of 1 the reason is that of the profit floor, not of
  the spread.
\<close>

theorem anomalous_spread_reason_counterexample:
  "spreadPercent (sampleRequest\<lparr>spreadPercent := Some 7, netProfitUsd := Some 1\<rparr>) = Some 7
   \<and> reason (decisionBody (POST noAdvisory
        (Inr (sampleRequest\<lparr>spreadPercent := Some 7, netProfitUsd := Some 1\<rparr>))))
      = JStr ''Net profit below $2 minimum threshold''"
  by (simp add: sampleRequest_def POST_def respond_def)

text \<open>
  C5 (amended). For every request with a spread of 7 the verdict is SKIP whatever the net
  profit is. The reason names the anomalous spread when the net profit is at least 2;
  below that, the reason is that of the profit test that matched first.
\<close>

theorem anomalous_spread_skips:
  assumes "netProfitUsd body = Some np" and "spreadPercent body = Some 7"
  shows "decision (decisionBody (POST rt (Inr body))) = JStr ''SKIP''
    \<and> (2 \<le> np \<longrightarrow> reason (decisionBody (POST rt (Inr body)))
            = JStr ''Spread >5% appears anomalous - possible bad data'')
    \<and> (0 < np \<and> np < 2 \<longrightarrow> reason (decisionBody (POST rt (Inr body)))
            = JStr ''Net profit below $2 minimum threshold'')
    \<and> (np \<le> 0 \<longrightarrow> reason (decisionBody (POST rt (Inr body)))
            = JStr ''Net profit is negative or zero'')"
  using assms by (simp add: POST_valid respond_def)

theorem anomalous_spread_skips_witness:
  "netProfitUsd (sampleRequest\<lparr>spreadPercent := Some 7\<rparr>) = Some 6
   \<and> spreadPercent (sampleRequest\<lparr>spreadPercent := Some 7\<rparr>) = Some 7
   \<and> decision (decisionBody (POST partialAdvisory (Inr (sampleRequest\<lparr>spreadPercent := Some 7\<rparr>)))) = JStr ''SKIP''
   \<and> reason (decisionBody (POST partialAdvisory (Inr (sampleRequest\<lparr>spreadPercent := Some 7\<rparr>))))
        = JStr ''Spread >5% appears anomalous - possible bad data''"
  using anomalous_spread_skips [where body = "sampleRequest\<lparr>spreadPercent := Some 7\<rparr>"
      and np = 6 and rt = partialAdvisory]
  by (simp add: sampleRequest_def)

text \<open>
  An answer holding only \<open>decision\<close> is not rejected: the response takes EXECUTE from
  it and fills reason and confidence with the defaults, where the fallback would have
  answered SKIP.
\<close>

theorem partial_answer_used_counterexample:
  "jsonMatch partialAnswer = Some partialAnswer
   \<and> JSON_parse partialAdvisory partialAnswer = Some [(''decision'', JStr ''EXECUTE'')]
   \<and> decisionBody (POST partialAdvisory (Inr (sampleRequest\<lparr>netProfitUsd := Some 3\<rparr>))) =
       \<lparr>decision = JStr ''EXECUTE'', reason = JStr ''AI decision completed'',
        confidence = Some 0.5,
        riskAnalysis = \<lparr>gasRisk = medium, slippageRiskA = low, mevRiskA = low,
                         profitMargin = acceptable\<rparr>\<rparr>
   \<and> decision (decisionBody (fallbackOf partialAdvisory (sampleRequest\<lparr>netProfitUsd := Some 3\<rparr>)))
       = JStr ''SKIP''"
  by (simp add: sampleRequest_def partialAdvisory_def partialAnswer_def POST_def respond_def
      advisoryAnswer_def jsonMatch_def orDefault_def Math_min_def Math_max_def
      fallbackOf_def fallbackDecision_def risk_defs)

text \<open>
  C4 (amended). Once the gate has passed and a key is configured, the handler routes to
  the fallback when the advisory call throws, when the answer has no brace-delimited span,
  and when that span does not parse. When it parses, the answer is used without a further
  schema check: decision, reason and confidence are read from the object, an absent or
  falsy field is replaced by SKIP, "AI decision completed" and 0.5, and a numeric
  confidence is clamped into [0, 1].
\<close>

theorem advisory_answer_use:
  assumes "netProfitUsd body = Some np" and "spreadPercent body = Some sp"
    and "2 \<le> np" and "sp \<le> 5"
    and "GEMINI_API_KEY rt = Some aiKey" and "aiKey \<noteq> []"
  shows "(advisoryAnswer rt body = None \<longrightarrow> POST rt (Inr body) = fallbackOf rt body)
    \<and> (\<forall>response. advisoryAnswer rt body = Some response \<and> jsonMatch response = None
          \<longrightarrow> POST rt (Inr body) = fallbackOf rt body)
    \<and> (\<forall>response m. advisoryAnswer rt body = Some response \<and> jsonMatch response = Some m
            \<and> JSON_parse rt m = None
          \<longrightarrow> POST rt (Inr body) = fallbackOf rt body)
    \<and> (\<forall>response m parsed. advisoryAnswer rt body = Some response \<and> jsonMatch response = Some m
            \<and> JSON_parse rt m = Some parsed
          \<longrightarrow> decision (decisionBody (POST rt (Inr body))) = orDefault parsed ''decision'' (JStr ''SKIP'')
            \<and> reason (decisionBody (POST rt (Inr body)))
                = orDefault parsed ''reason'' (JStr ''AI decision completed'')
            \<and> confidence (decisionBody (POST rt (Inr body)))
                = Math_min 1 (Math_max 0 (ToNumber (coerceNumber rt)
                    (orDefault parsed ''confidence'' (JNum 0.5))))
            \<and> (\<forall>c. confidence (decisionBody (POST rt (Inr body))) = Some c \<longrightarrow> 0 \<le> c \<and> c \<le> 1)
            \<and> (map_of parsed ''decision'' = None
                  \<longrightarrow> decision (decisionBody (POST rt (Inr body))) = JStr ''SKIP'')
            \<and> (map_of parsed ''reason'' = None
                  \<longrightarrow> reason (decisionBody (POST rt (Inr body))) = JStr ''AI decision completed'')
            \<and> (map_of parsed ''confidence'' = None
                  \<longrightarrow> confidence (decisionBody (POST rt (Inr body))) = Some 0.5))"
proof -
  have gate: "\<not> np \<le> 0" "\<not> np < 2" "\<not> sp > 5"
    using assms(3,4) by simp_all
  note post = POST_valid [OF assms(1,2), of rt]
  show ?thesis
    using gate assms(5,6)
    by (auto simp add: post respond_def orDefault_def Math_min_def Math_max_def dest: clamp_range)
qed

theorem advisory_answer_use_witness:
  "netProfitUsd (sampleRequest\<lparr>netProfitUsd := Some 3\<rparr>) = Some 3
   \<and> spreadPercent (sampleRequest\<lparr>netProfitUsd := Some 3\<rparr>) = Some 1
   \<and> GEMINI_API_KEY partialAdvisory = Some ''key''
   \<and> advisoryAnswer partialAdvisory (sampleRequest\<lparr>netProfitUsd := Some 3\<rparr>) = Some partialAnswer
   \<and> jsonMatch partialAnswer = Some partialAnswer
   \<and> JSON_parse partialAdvisory partialAnswer = Some [(''decision'', JStr ''EXECUTE'')]
   \<and> reason (decisionBody (POST partialAdvisory (Inr (sampleRequest\<lparr>netProfitUsd := Some 3\<rparr>))))
       = JStr ''AI decision completed''
   \<and> confidence (decisionBody (POST partialAdvisory (Inr (sampleRequest\<lparr>netProfitUsd := Some 3\<rparr>))))
       = Some 0.5"
proof -
  let ?b = "sampleRequest\<lparr>netProfitUsd := Some 3\<rparr>"
  have np: "netProfitUsd ?b = Some 3" and sp: "spreadPercent ?b = Some 1"
    by (simp_all add: sampleRequest_def)
  have key: "GEMINI_API_KEY partialAdvisory = Some ''key''"
    by (simp add: partialAdvisory_def)
  have answer: "advisoryAnswer partialAdvisory ?b = Some partialAnswer"
    by (simp add: advisoryAnswer_def partialAdvisory_def)
  have span: "jsonMatch partialAnswer = Some partialAnswer"
    by (simp add: partialAnswer_def jsonMatch_def)
  have parsed: "JSON_parse partialAdvisory partialAnswer = Some [(''decision'', JStr ''EXECUTE'')]"
    by (simp add: partialAdvisory_def)
  have gate: "(2::real) \<le> 3" "(1::real) \<le> 5" and nonempty: "''key'' \<noteq> []"
    by simp_all
  have absent: "map_of [(''decision'', JStr ''EXECUTE'')] ''reason'' = None"
    "map_of [(''decision'', JStr ''EXECUTE'')] ''confidence'' = None"
    by simp_all
  have "reason (decisionBody (POST partialAdvisory (Inr ?b))) = JStr ''AI decision completed''
      \<and> confidence (decisionBody (POST partialAdvisory (Inr ?b))) = Some 0.5"
    using advisory_answer_use [OF np sp gate key nonempty] answer span parsed absent by blast
  with np sp key answer span parsed show ?thesis
    by blast
qed

text \<open>
  The empty object is a malformed answer, yet the response is built from the defaults and
  not by the fallback, which would have answered EXECUTE with confidence 0.75.
\<close>

theorem malformed_answer_not_fallback_counterexample:
  "advisoryAnswer emptyAdvisory sampleRequest = Some ''{}''
   \<and> decision (decisionBody (POST emptyAdvisory (Inr sampleRequest))) = JStr ''SKIP''
   \<and> reason (decisionBody (POST emptyAdvisory (Inr sampleRequest))) = JStr ''AI decision completed''
   \<and> confidence (decisionBody (POST emptyAdvisory (Inr sampleRequest))) = Some 0.5
   \<and> decision (decisionBody (fallbackOf emptyAdvisory sampleRequest)) = JStr ''EXECUTE''
   \<and> confidence (decisionBody (fallbackOf emptyAdvisory sampleRequest)) = Some 0.75"
  by (simp add: sampleRequest_def emptyAdvisory_def POST_def respond_def
      advisoryAnswer_def jsonMatch_def orDefault_def Math_min_def Math_max_def
      fallbackOf_def fallbackDecision_def risk_defs)

text \<open>
  C6 (amended). Once the gate has passed, no behaviour of the advisory makes the request
  fail: the response is successful with status 200 and a truthy reason. When the advisory
  call throws (an error or a timeout), when its answer has no brace-delimited span and when
  the span does not parse, the response is the fallback's, whose reason is a non-empty
  string. An answer that parses is answered from its own fields and the defaults.
\<close>

theorem advisory_failure_falls_back:
  assumes "netProfitUsd body = Some np" and "spreadPercent body = Some sp"
    and "2 \<le> np" and "sp \<le> 5"
  shows "success (POST rt (Inr body)) \<and> status (POST rt (Inr body)) = 200
      \<and> error (POST rt (Inr body)) = None
      \<and> truthy (reason (decisionBody (POST rt (Inr body))))
    \<and> (advisoryAnswer rt body = None \<longrightarrow> POST rt (Inr body) = fallbackOf rt body)
    \<and> (\<forall>response. advisoryAnswer rt body = Some response
            \<and> (jsonMatch response = None
                \<or> (\<exists>m. jsonMatch response = Some m \<and> JSON_parse rt m = None))
          \<longrightarrow> POST rt (Inr body) = fallbackOf rt body)
    \<and> (\<exists>r. reason (decisionBody (fallbackOf rt body)) = JStr r \<and> r \<noteq> [])
    \<and> success (fallbackOf rt body) \<and> status (fallbackOf rt body) = 200"
proof -
  have gate: "\<not> np \<le> 0" "\<not> np < 2" "\<not> sp > 5"
    using assms(3,4) by simp_all
  note post = POST_valid [OF assms(1,2), of rt]
  have fb_reason: "\<exists>r. reason (decisionBody (fallbackOf rt body)) = JStr r \<and> r \<noteq> []"
    unfolding fallbackOf_def by (rule fallbackDecision_reason)
  then have fb_truthy: "truthy (reason (decisionBody (fallbackOf rt body)))"
    by auto
  have fb_ok: "success (fallbackOf rt body) \<and> status (fallbackOf rt body) = 200
      \<and> error (fallbackOf rt body) = None"
    unfolding fallbackOf_def by (rule fallbackDecision_success)
  have routes: "(advisoryAnswer rt body = None \<longrightarrow> POST rt (Inr body) = fallbackOf rt body)
    \<and> (\<forall>response. advisoryAnswer rt body = Some response
            \<and> (jsonMatch response = None
                \<or> (\<exists>m. jsonMatch response = Some m \<and> JSON_parse rt m = None))
          \<longrightarrow> POST rt (Inr body) = fallbackOf rt body)"
    using gate by (auto simp add: post split: option.splits)
  have ok: "success (POST rt (Inr body)) \<and> status (POST rt (Inr body)) = 200
      \<and> error (POST rt (Inr body)) = None
      \<and> truthy (reason (decisionBody (POST rt (Inr body))))"
    using gate fb_ok fb_truthy
    by (auto simp add: post respond_def orDefault_truthy split: option.splits)
  show ?thesis
    using ok routes fb_reason fb_ok by blast
qed

theorem advisory_failure_falls_back_witness:
  "netProfitUsd sampleRequest = Some 6 \<and> spreadPercent sampleRequest = Some 1
   \<and> advisoryAnswer failingAdvisory sampleRequest = None
   \<and> POST failingAdvisory (Inr sampleRequest) = fallbackOf failingAdvisory sampleRequest
   \<and> success (POST failingAdvisory (Inr sampleRequest))
   \<and> reason (decisionBody (POST failingAdvisory (Inr sampleRequest)))
       = JStr ''Net profit $6.00 with low overall risk''"
  using advisory_failure_falls_back [where body = sampleRequest and np = 6 and sp = 1
      and rt = failingAdvisory]
  by (simp add: sampleRequest_def failingAdvisory_def advisoryAnswer_def
      fallbackOf_def fallbackDecision_def respond_def risk_defs)

section \<open>Properties of the settlement contract\<close>

lemma checked_add_Inr: "checked_add a b = Inr c \<Longrightarrow> c = a + b \<and> unat c = unat a + unat b"
  by (auto simp add: checked_add_def unat_word_ariths split: if_splits)

lemma checked_sub_Inr: "checked_sub a b = Inr c \<Longrightarrow> c = a - b \<and> b \<le> a"
  by (auto simp add: checked_sub_def split: if_splits)

lemma unat_debit: "a \<le> b \<Longrightarrow> unat (b - a) + unat a = unat (b :: uint256)"
  by (simp add: unat_sub word_le_nat_alt)

lemma executeArb_Inr:
  assumes "executeArb c s sender a m = Inr s'" and "sender \<noteq> WETH c"
  shows "balance s \<le> balance s' \<and> m \<le> balance s' - balance s
    \<and> 0 < a \<and> a \<le> userBalances s sender
    \<and> userBalances s' sender = (userBalances s sender - a) + (a + (balance s' - balance s))
    \<and> unat (userBalances s' sender) = unat (userBalances s sender) + unat (balance s' - balance s)
    \<and> userTransactions s' sender = userTransactions s sender @
         [\<lparr>txTimestamp = blockTimestamp c, amountIn = a, profit = balance s' - balance s,
           isExecuteArb = True\<rparr>]"
  using assms
  apply (simp add: executeArb_def Let_def receive_def split: if_splits sum.splits option.splits)
  apply (clarsimp dest!: checked_add_Inr checked_sub_Inr)
  apply (simp add: unat_debit)
  done

text \<open>
  C1. For every call of \<open>executeArb\<close> by an account other than the wrapped-ether token
  whose balance covers the amount, the transaction ends in one of two ways. Either it
  commits: the contract's ether balance did not fall, the profit (balance after minus
  balance before) is at least \<open>minProfit\<close>, the caller's balance, debited by the amount,
  is credited with the amount plus the profit, without overflow, and one Transaction
  record with this amount and profit is appended to the caller's log. Or it reverts and the
  whole state, the caller's balance and log included, is the state before the call.
\<close>

theorem executeArb_all_or_nothing:
  assumes "amountIn' \<le> userBalances s sender" and "sender \<noteq> WETH c"
  shows "(\<exists>s'. transact (\<lambda>s. executeArb c s sender amountIn' minProfit) s = (s', None)
            \<and> balance s \<le> balance s' \<and> minProfit \<le> balance s' - balance s
            \<and> userBalances s' sender
                = (userBalances s sender - amountIn') + (amountIn' + (balance s' - balance s))
            \<and> unat (userBalances s' sender)
                = unat (userBalances s sender) + unat (balance s' - balance s)
            \<and> userTransactions s' sender = userTransactions s sender @
                 [\<lparr>txTimestamp = blockTimestamp c, amountIn = amountIn',
                   profit = balance s' - balance s, isExecuteArb = True\<rparr>])
       \<or> (\<exists>e. transact (\<lambda>s. executeArb c s sender amountIn' minProfit) s = (s, Some e))"
proof (cases "executeArb c s sender amountIn' minProfit")
  case (Inl e)
  then show ?thesis
    by (simp add: transact_def)
next
  case (Inr s')
  then have "transact (\<lambda>s. executeArb c s sender amountIn' minProfit) s = (s', None)"
    by (simp add: transact_def)
  with executeArb_Inr [OF Inr assms(2)] show ?thesis
    by blast
qed

theorem executeArb_all_or_nothing_witness:
  "(5::uint256) \<le> userBalances fundedLedger 1 \<and> (1::address) \<noteq> WETH sampleChain
   \<and> transact (\<lambda>s. executeArb sampleChain s 1 5 1) fundedLedger =
        (\<lparr>userBalances = (\<lambda>_. 0)(1 := 7, 102 := 7),
          userTransactions = (\<lambda>_. [])
            (1 := [\<lparr>txTimestamp = 1700000000, amountIn = 5, profit = 2, isExecuteArb = True\<rparr>]),
          balance = 7,
          events = [Deposited 1 5, Deposited 102 7, ArbitrageExecuted 1 5 7 2]\<rparr>, None)
   \<and> transact (\<lambda>s. executeArb sampleChain s 1 5 3) fundedLedger
        = (fundedLedger, Some (Require ''Unprofitable: profit below minimum''))"
proof -
  have cover: "(5::uint256) \<le> userBalances fundedLedger 1"
    by (simp add: fundedLedger_def)
  have other: "(1::address) \<noteq> WETH sampleChain"
    by (simp add: sampleChain_def)
  have run: "executeArb sampleChain fundedLedger 1 5 1 =
      Inr \<lparr>userBalances = (\<lambda>_. 0)(1 := 7, 102 := 7), userTransactions = (\<lambda>_. [])
             (1 := [\<lparr>txTimestamp = 1700000000, amountIn = 5, profit = 2, isExecuteArb = True\<rparr>]),
           balance = 7,
           events = [Deposited 1 5, Deposited 102 7, ArbitrageExecuted 1 5 7 2]\<rparr>"
    by (simp add: executeArb_def fundedLedger_def sampleChain_def receive_def checked_add_def
        checked_sub_def POOL_FEE_def Let_def fun_upd_twist)
  have low: "executeArb sampleChain fundedLedger 1 5 3 = Inl (Require ''Unprofitable: profit below minimum'')"
    by (simp add: executeArb_def fundedLedger_def sampleChain_def receive_def checked_add_def
        checked_sub_def POOL_FEE_def Let_def)
  from executeArb_all_or_nothing [OF cover other, of 1] run low cover other
  show ?thesis
    by (simp add: transact_def)
qed

text \<open>
  An amount of zero is within every balance, yet the call reverts with "Zero withdraw".
\<close>

theorem withdraw_zero_counterexample:
  "(0::uint256) \<le> userBalances fundedLedger 1
   \<and> withdraw sampleChain fundedLedger 1 0 = Inl (Require ''Zero withdraw'')"
  by (simp add: withdraw_def)

text \<open>
  C8 (amended). A withdrawal of more than the caller's balance reverts with "Insufficient
  balance" and leaves the state as it was. A withdrawal that succeeds has a positive amount
  within the caller's balance, debits that balance by exactly the amount, leaves every
  other balance alone, and sends the amount out of the contract's ether. It succeeds
  whenever the amount is positive, within the caller's balance and the contract's ether,
  and the caller accepts the transfer. A withdrawal of zero reverts with "Zero withdraw".
\<close>

theorem withdraw_guarded:
  "(userBalances s sender < amount \<longrightarrow>
      withdraw c s sender amount = Inl (Require ''Insufficient balance'')
      \<and> transact (\<lambda>s. withdraw c s sender amount) s = (s, Some (Require ''Insufficient balance'')))
   \<and> (\<forall>s'. withdraw c s sender amount = Inr s' \<longrightarrow>
        0 < amount \<and> amount \<le> userBalances s sender
        \<and> userBalances s' sender = userBalances s sender - amount
        \<and> unat (userBalances s' sender) + unat amount = unat (userBalances s sender)
        \<and> (\<forall>u. u \<noteq> sender \<longrightarrow> userBalances s' u = userBalances s u)
        \<and> balance s' = balance s - amount \<and> amount \<le> balance s
        \<and> events s' = events s @ [Withdrawn sender amount])
   \<and> (0 < amount \<and> amount \<le> userBalances s sender \<and> amount \<le> balance s
        \<and> acceptsEther c sender amount \<longrightarrow>
        withdraw c s sender amount =
          Inr (s\<lparr>userBalances := (userBalances s)(sender := userBalances s sender - amount),
                 balance := balance s - amount,
                 events := events s @ [Withdrawn sender amount]\<rparr>))
   \<and> (amount = 0 \<longrightarrow> withdraw c s sender amount = Inl (Require ''Zero withdraw''))"
proof -
  have insufficient: "userBalances s sender < amount \<Longrightarrow>
      withdraw c s sender amount = Inl (Require ''Insufficient balance'')"
    by (auto simp add: withdraw_def word_gt_0 not_le)
  have inv: "withdraw c s sender amount = Inr s' \<Longrightarrow>
        0 < amount \<and> amount \<le> userBalances s sender
        \<and> userBalances s' sender = userBalances s sender - amount
        \<and> unat (userBalances s' sender) + unat amount = unat (userBalances s sender)
        \<and> (\<forall>u. u \<noteq> sender \<longrightarrow> userBalances s' u = userBalances s u)
        \<and> balance s' = balance s - amount \<and> amount \<le> balance s
        \<and> events s' = events s @ [Withdrawn sender amount]" for s'
    by (auto simp add: withdraw_def Let_def unat_debit not_less word_gt_0 split: if_splits)
  have ok: "0 < amount \<and> amount \<le> userBalances s sender \<and> amount \<le> balance s
        \<and> acceptsEther c sender amount \<Longrightarrow>
        withdraw c s sender amount =
          Inr (s\<lparr>userBalances := (userBalances s)(sender := userBalances s sender - amount),
                 balance := balance s - amount,
                 events := events s @ [Withdrawn sender amount]\<rparr>)"
    by (simp add: withdraw_def Let_def not_less)
  have zero: "amount = 0 \<Longrightarrow> withdraw c s sender amount = Inl (Require ''Zero withdraw'')"
    by (simp add: withdraw_def)
  have reverted: "userBalances s sender < amount \<Longrightarrow>
      transact (\<lambda>s. withdraw c s sender amount) s = (s, Some (Require ''Insufficient balance''))"
    using insufficient by (simp add: transact_def)
  show ?thesis
    using insufficient reverted inv ok zero by blast
qed

theorem withdraw_guarded_witness:
  "userBalances fundedLedger 1 < (6::uint256)
   \<and> withdraw sampleChain fundedLedger 1 6 = Inl (Require ''Insufficient balance'')
   \<and> (0::uint256) < 2 \<and> 2 \<le> userBalances fundedLedger 1 \<and> 2 \<le> balance fundedLedger
   \<and> acceptsEther sampleChain 1 2
   \<and> withdraw sampleChain fundedLedger 1 2 =
        Inr (fundedLedger\<lparr>userBalances := (userBalances fundedLedger)(1 := 3), balance := 3,
               events := [Deposited 1 5, Withdrawn 1 2]\<rparr>)"
proof -
  have over: "userBalances fundedLedger 1 < (6::uint256)"
    by (simp add: fundedLedger_def)
  have within: "(0::uint256) < 2 \<and> 2 \<le> userBalances fundedLedger 1 \<and> 2 \<le> balance fundedLedger
      \<and> acceptsEther sampleChain 1 2"
    by (simp add: fundedLedger_def sampleChain_def)
  from withdraw_guarded [of fundedLedger 1 6 sampleChain] over
    withdraw_guarded [of fundedLedger 1 2 sampleChain] within
  show ?thesis
    by (simp add: fundedLedger_def)
qed

text \<open>
  C10. A plain ether transfer runs \<open>receive\<close>, which credits the value to the sender's
  balance and emits Deposited without testing that the value is positive: a transfer of
  zero succeeds and changes nothing but the event log, where \<open>deposit\<close> with zero value
  reverts with "Zero deposit". For a positive value both do the same.
\<close>

theorem receive_has_no_zero_check:
  "receive s sender 0 = Inr (s\<lparr>events := events s @ [Deposited sender 0]\<rparr>)
   \<and> deposit s sender 0 = Inl (Require ''Zero deposit'')
   \<and> (unat (userBalances s sender) + unat v < 2 ^ 256 \<longrightarrow>
        receive s sender v =
          Inr (s\<lparr>balance := balance s + v,
                 userBalances := (userBalances s)(sender := userBalances s sender + v),
                 events := events s @ [Deposited sender v]\<rparr>))
   \<and> (0 < v \<longrightarrow> deposit s sender v = receive s sender v)"
proof -
  have "unat (userBalances s sender) < 2 ^ 256"
    using unsigned_less [of "userBalances s sender", where ?'a = nat] by simp
  then show ?thesis
    by (simp add: receive_def deposit_def checked_add_def Let_def)
qed

theorem receive_has_no_zero_check_witness:
  "unat (userBalances fundedLedger 1) + unat (3::uint256) < 2 ^ 256
   \<and> receive fundedLedger 1 3 =
        Inr (fundedLedger\<lparr>balance := 8, userBalances := (userBalances fundedLedger)(1 := 8),
               events := [Deposited 1 5, Deposited 1 3]\<rparr>)
   \<and> deposit fundedLedger 1 3 = receive fundedLedger 1 3
   \<and> receive fundedLedger 1 0 = Inr (fundedLedger\<lparr>events := [Deposited 1 5, Deposited 1 0]\<rparr>)
   \<and> deposit fundedLedger 1 0 = Inl (Require ''Zero deposit'')"
proof -
  have room: "unat (userBalances fundedLedger 1) + unat (3::uint256) < 2 ^ 256"
    by (simp add: fundedLedger_def)
  have pos: "(0::uint256) < 3"
    by simp
  from receive_has_no_zero_check [of fundedLedger 1 3] room pos
    receive_has_no_zero_check [of fundedLedger 1 0]
  show ?thesis
    by (simp add: fundedLedger_def)
qed

section \<open>Properties of the cost estimators\<close>

lemma price_pool: "getEthPriceUsd (Some 4835703278458516698824704) = 244140625 / 65536"
  by (simp add: getEthPriceUsd_def Let_def power2_eq_square)

lemma price_fallback: "getEthPriceUsd None = 3500"
  by (simp add: getEthPriceUsd_def)

text \<open>
  In one run of the gas estimator the pool read of the deposit leg succeeds (a price of
  about 3725.29) and that of the swap leg fails (3500): the same 0.001 ETH is quoted as
  3.73 USD for one leg and 3.50 USD for the other.
\<close>

theorem estimator_references_differ_counterexample:
  "calculateCompleteFlowGasFees (Some sampleFeeData) (Some 4835703278458516698824704) (Some sampleFeeData) None =
     Inr \<lparr>step1_deposit = \<lparr>gasCostWei = 1000000000000000, gasCostEth = 1 / 1000,
                              legGasCostUsd = 373 / 100\<rparr>,
          step2_swap = \<lparr>gasCostWei = 1000000000000000, gasCostEth = 1 / 1000,
                          legGasCostUsd = 350 / 100\<rparr>,
          totalGasCostEth = 2 / 1000, totalGasCostUsd = 723 / 100\<rparr>"
  by (simp add: calculateCompleteFlowGasFees_def calculateBaseDepositGasFees_def
      calculateArbitrumSwapGasFees_def sampleFeeData_def formatEther_def toFixedValue_def
      price_pool price_fallback Let_def)

text \<open>
  C7 (amended). Each gas leg and the bridging estimator converts its ETH figures to USD
  with the value its own call of \<open>getEthPriceUsd\<close> returned, the pool price or 3500 when
  the pool read failed. No reference is passed between them: their USD figures rest on one
  common ETH/USD reference when those calls return the same value, as they do when every
  pool read fails.
\<close>

theorem estimators_convert_with_own_reference:
  assumes "calculateCompleteFlowGasFees depositNet depositSlot0 swapNet swapSlot0 = Inr g"
    and "calculateAcrossBridgeFees amountInWei quote baseGasPrice bridgeSlot0 = Inr b"
  shows "legGasCostUsd (step1_deposit g)
           = toFixedValue 2 (gasCostEth (step1_deposit g) * getEthPriceUsd depositSlot0)
    \<and> legGasCostUsd (step2_swap g)
           = toFixedValue 2 (gasCostEth (step2_swap g) * getEthPriceUsd swapSlot0)
    \<and> relayerFeeUsd b = toFixedValue 2 (relayerFeeEth b * getEthPriceUsd bridgeSlot0)
    \<and> bridgeGasCostUsd b = toFixedValue 2 (bridgeGasCostEth b * getEthPriceUsd bridgeSlot0)
    \<and> totalFeesUsd b = toFixedValue 2 (totalFeesEth b * getEthPriceUsd bridgeSlot0)
    \<and> (\<forall>p. getEthPriceUsd depositSlot0 = p \<and> getEthPriceUsd swapSlot0 = p
            \<and> getEthPriceUsd bridgeSlot0 = p \<longrightarrow>
          legGasCostUsd (step1_deposit g) = toFixedValue 2 (gasCostEth (step1_deposit g) * p)
          \<and> legGasCostUsd (step2_swap g) = toFixedValue 2 (gasCostEth (step2_swap g) * p)
          \<and> relayerFeeUsd b = toFixedValue 2 (relayerFeeEth b * p)
          \<and> bridgeGasCostUsd b = toFixedValue 2 (bridgeGasCostEth b * p)
          \<and> totalFeesUsd b = toFixedValue 2 (totalFeesEth b * p))
    \<and> (depositSlot0 = None \<and> swapSlot0 = None \<and> bridgeSlot0 = None \<longrightarrow>
          getEthPriceUsd depositSlot0 = 3500 \<and> getEthPriceUsd swapSlot0 = 3500
          \<and> getEthPriceUsd bridgeSlot0 = 3500)"
proof -
  from assms(1) have gas:
    "legGasCostUsd (step1_deposit g)
       = toFixedValue 2 (gasCostEth (step1_deposit g) * getEthPriceUsd depositSlot0)"
    "legGasCostUsd (step2_swap g)
       = toFixedValue 2 (gasCostEth (step2_swap g) * getEthPriceUsd swapSlot0)"
    by (auto simp add: calculateCompleteFlowGasFees_def calculateBaseDepositGasFees_def
        calculateArbitrumSwapGasFees_def Let_def split: option.splits sum.splits)
  from assms(2) have bridge:
    "relayerFeeUsd b = toFixedValue 2 (relayerFeeEth b * getEthPriceUsd bridgeSlot0)"
    "bridgeGasCostUsd b = toFixedValue 2 (bridgeGasCostEth b * getEthPriceUsd bridgeSlot0)"
    "totalFeesUsd b = toFixedValue 2 (totalFeesEth b * getEthPriceUsd bridgeSlot0)"
    by (auto simp add: calculateAcrossBridgeFees_def Let_def split: option.splits)
  have fallback: "getEthPriceUsd None = 3500"
    by (simp add: getEthPriceUsd_def)
  show ?thesis
    using gas bridge fallback by auto
qed

theorem estimators_convert_with_own_reference_witness:
  "calculateCompleteFlowGasFees (Some sampleFeeData) None (Some sampleFeeData) None =
     Inr \<lparr>step1_deposit = \<lparr>gasCostWei = 1000000000000000, gasCostEth = 1 / 1000,
                              legGasCostUsd = 350 / 100\<rparr>,
          step2_swap = \<lparr>gasCostWei = 1000000000000000, gasCostEth = 1 / 1000,
                          legGasCostUsd = 350 / 100\<rparr>,
          totalGasCostEth = 2 / 1000, totalGasCostUsd = 7\<rparr>
   \<and> calculateAcrossBridgeFees 1000000000000000000 None (Some 4000000000) None =
     Inr \<lparr>relayerFeeEth = 1 / 1000, relayerFeeUsd = 350 / 100,
          bridgeGasCostEth = 1 / 1000, bridgeGasCostUsd = 350 / 100,
          totalFeesEth = 2 / 1000, totalFeesUsd = 7\<rparr>
   \<and> getEthPriceUsd None = 3500
   \<and> 350 / 100 = toFixedValue 2 (1 / 1000 * 3500)
   \<and> 7 = toFixedValue 2 (2 / 1000 * 3500)"
proof -
  let ?G = "\<lparr>step1_deposit = \<lparr>gasCostWei = 1000000000000000, gasCostEth = 1 / 1000,
                              legGasCostUsd = 350 / 100\<rparr>,
          step2_swap = \<lparr>gasCostWei = 1000000000000000, gasCostEth = 1 / 1000,
                          legGasCostUsd = 350 / 100\<rparr>,
          totalGasCostEth = 2 / 1000, totalGasCostUsd = 7\<rparr>"
  let ?B = "\<lparr>relayerFeeEth = 1 / 1000, relayerFeeUsd = 350 / 100,
          bridgeGasCostEth = 1 / 1000, bridgeGasCostUsd = 350 / 100,
          totalFeesEth = 2 / 1000, totalFeesUsd = 7\<rparr>"
  have g: "calculateCompleteFlowGasFees (Some sampleFeeData) None (Some sampleFeeData) None = Inr ?G"
    by (simp add: calculateCompleteFlowGasFees_def calculateBaseDepositGasFees_def
      calculateArbitrumSwapGasFees_def sampleFeeData_def formatEther_def toFixedValue_def
      price_fallback Let_def)
  have b: "calculateAcrossBridgeFees 1000000000000000000 None (Some 4000000000) None = Inr ?B"
    by (simp add: calculateAcrossBridgeFees_def formatEther_def toFixedValue_def
      price_fallback Let_def)
  have p: "getEthPriceUsd None = 3500"
    by (simp add: getEthPriceUsd_def)
  from estimators_convert_with_own_reference [OF g b] p
  have "legGasCostUsd (step1_deposit ?G) = toFixedValue 2 (gasCostEth (step1_deposit ?G) * 3500)
      \<and> totalFeesUsd ?B = toFixedValue 2 (totalFeesEth ?B * 3500)"
    by blast
  then have "350 / 100 = toFixedValue 2 (1 / 1000 * 3500) \<and> 7 = toFixedValue 2 (2 / 1000 * 3500)"
    by simp
  with g b p show ?thesis
    by blast
qed

end
